theory Spec2Isabelle
  imports Complex_Main "HOL-Library.Word" "HOL-Library.Log_Nat"
begin

section \<open>Single-precision arithmetic\<close>

text \<open>
  A \<^verbatim>\<open>float\<close> of the ESP32 is an IEEE 754 binary32 number, and each operation on
  floats gives the binary32 number nearest to the exact result, a tie going to the
  even significand. \<open>round_even\<close> is that rounding to an integer. \<open>bexp x\<close> is the
  exponent of a positive \<open>x\<close>: the \<open>e\<close> with \<open>2 ^ e \<le> x < 2 ^ (e + 1)\<close>. \<open>float32\<close>
  rounds a real to a multiple of \<open>2 ^ (e - 23)\<close>, 24 significant bits, and below
  \<open>2 ^ - 126\<close> to a multiple of \<open>2 ^ - 149\<close>. A result beyond the largest binary32
  number is infinite in the code, and its conversion to an integer is undefined;
  \<open>float32\<close> has no infinity and rounds it like any other.
\<close>

definition round_even :: "real \<Rightarrow> int" where
  "round_even y =
     (let f = \<lfloor>y\<rfloor>; d = y - of_int f in
      if d < 1 / 2 then f else if 1 / 2 < d then f + 1 else if even f then f else f + 1)"

definition bexp :: "real \<Rightarrow> int" where
  "bexp x = (if 1 \<le> x then bitlen \<lfloor>x\<rfloor> - 1 else - bitlen (\<lceil>1 / x\<rceil> - 1))"

definition float32 :: "real \<Rightarrow> real" where
  "float32 x =
     (if x = 0 then 0
      else
        (let q = 2 powi (max (bexp \<bar>x\<bar>) (- 126) - 23)
         in sgn x * of_int (round_even (\<bar>x\<bar> / q)) * q))"

text \<open>The reals that are binary32 numbers: rounding leaves them as they are.\<close>

definition is_float32 :: "real \<Rightarrow> bool" where
  "is_float32 x = (float32 x = x)"

section \<open>LineCrossingCounter: the data\<close>

text \<open>
  The class of \<^verbatim>\<open>src/esp32cam/apps/LineCrossingCounter.h\<close>. Its members keep their
  names behind the prefix \<open>m_\<close> (the source writes \<^verbatim>\<open>_x\<close>, \<^verbatim>\<open>_t\<close>, ...).
  \<^item> \<^verbatim>\<open>uint8_t\<close> and \<^verbatim>\<open>uint16_t\<close> members are \<open>8 word\<close> and \<open>16 word\<close>.
  \<^item> The three \<^verbatim>\<open>float\<close> members hold the value of a finite binary32 number, as a
    real. What is computed from them is rounded to binary32 by \<open>float32\<close> below.
  \<^item> \<^verbatim>\<open>_motion[7]\<close> is a list of seven \<open>16 word\<close>.
  \<^item> The two base classes are not among the sources. \<open>m_error\<close> is the message held by
    \<^verbatim>\<open>HasErrorMessage\<close>; \<open>m_debounce\<close> is the state of \<^verbatim>\<open>Debounces\<close>, of a type
    \<open>'d\<close> the model does not look into.
\<close>

record 'd counter =
  m_x :: real
  m_miny :: real
  m_maxy :: real
  m_lag :: "8 word"
  m_sparsity :: "8 word"
  m_t :: "16 word"
  m_ltrCount :: "16 word"
  m_rtlCount :: "16 word"
  m_motion :: "16 word list"
  m_error :: string
  m_debounce :: 'd

text \<open>
  \<^verbatim>\<open>Motion::Detector\<close> is not among the sources either. \<^verbatim>\<open>update()\<close> stores its
  width and height in \<^verbatim>\<open>uint16_t\<close> locals and asks it \<^verbatim>\<open>isForeground(column, row)\<close>;
  the detector of one frame is these three.
\<close>

record detector =
  getWidth :: "16 word"
  getHeight :: "16 word"
  isForeground :: "int \<Rightarrow> int \<Rightarrow> bool"

text \<open>
  The constructor sets eight members and leaves \<^verbatim>\<open>_motion\<close> as the memory holds it:
  \<open>mem\<close> is that memory (all zero for an object with static storage). \<open>e0\<close> and
  \<open>d0\<close> are what the constructors of the two base classes leave. \<^verbatim>\<open>_maxy(0.999)\<close>
  stores the binary32 number nearest to 0.999. The setters \<^verbatim>\<open>lineAt\<close>, \<^verbatim>\<open>above\<close> and
  \<^verbatim>\<open>below\<close> have a \<^verbatim>\<open>float\<close> parameter: their argument is a binary32 number already.
\<close>

definition LineCrossingCounter :: "16 word list \<Rightarrow> string \<Rightarrow> 'd \<Rightarrow> 'd counter" where
  "LineCrossingCounter mem e0 d0 =
     \<lparr>m_x = 0, m_miny = 0, m_maxy = float32 (999 / 1000), m_lag = 3, m_sparsity = 4, m_t = 0,
      m_ltrCount = 0, m_rtlCount = 0, m_motion = mem, m_error = e0, m_debounce = d0\<rparr>"

definition lineAt :: "real \<Rightarrow> 'd counter \<Rightarrow> 'd counter" where
  "lineAt x s = s\<lparr>m_x := x\<rparr>"

definition above :: "real \<Rightarrow> 'd counter \<Rightarrow> 'd counter" where
  "above y s = s\<lparr>m_miny := y\<rparr>"

definition below :: "real \<Rightarrow> 'd counter \<Rightarrow> 'd counter" where
  "below y s = s\<lparr>m_maxy := y\<rparr>"

definition lag :: "8 word \<Rightarrow> 'd counter \<Rightarrow> 'd counter" where
  "lag l s = s\<lparr>m_lag := l\<rparr>"

definition sparsity :: "8 word \<Rightarrow> 'd counter \<Rightarrow> 'd counter" where
  "sparsity sp s = s\<lparr>m_sparsity := sp\<rparr>"

definition getLeftToRightCount :: "'d counter \<Rightarrow> 16 word" where
  "getLeftToRightCount s = m_ltrCount s"

definition getRightToLeftCount :: "'d counter \<Rightarrow> 16 word" where
  "getRightToLeftCount s = m_rtlCount s"

section \<open>update()\<close>

text \<open>
  Modelled from the spec: \<^verbatim>\<open>setErrorMessage\<close> of \<^verbatim>\<open>traits/HasErrorMessage.h\<close>, which is
  not among the sources. The spec has validation failures surfaced as a message on the
  shared error accessor and a \<^verbatim>\<open>false\<close> return, and the last step of \<^verbatim>\<open>update()\<close>
  clear any prior error and return success: the call stores the message and answers
  whether the message is empty.
\<close>

definition setErrorMessage :: "string \<Rightarrow> 'd counter \<Rightarrow> bool \<times> 'd counter" where
  "setErrorMessage msg s = (msg = [], s\<lparr>m_error := msg\<rparr>)"

text \<open>
  A \<^verbatim>\<open>float\<close> stored in a \<^verbatim>\<open>uint16_t\<close> is truncated towards zero. C++ defines the
  conversion only when the truncated value fits; outside that range the model wraps.
\<close>

definition to_uint16 :: "real \<Rightarrow> 16 word" where
  "to_uint16 r = word_of_int (if 0 \<le> r then \<lfloor>r\<rfloor> else \<lceil>r\<rceil>)"

text \<open>
  The conditional expression \<^verbatim>\<open>v >= 1 ? v / 8 : v * extent\<close> of lines 93 to 95 and
  the three locals \<^verbatim>\<open>x\<close>, \<^verbatim>\<open>above\<close>, \<^verbatim>\<open>below\<close> computed from it. The \<^verbatim>\<open>int\<close> 8 and
  the \<^verbatim>\<open>uint16_t\<close> width or height are converted to \<^verbatim>\<open>float\<close>, which is exact; the
  quotient, the product and the difference \<^verbatim>\<open>height - (...)\<close> are \<^verbatim>\<open>float\<close> operations,
  each rounded to binary32 before the result is truncated to \<^verbatim>\<open>uint16_t\<close>.
\<close>

definition resolve :: "real \<Rightarrow> 16 word \<Rightarrow> real" where
  "resolve v extent =
     (if v \<ge> 1 then float32 (v / 8) else float32 (v * real (unat extent)))"

definition local_x :: "detector \<Rightarrow> 'd counter \<Rightarrow> 16 word" where
  "local_x det s = to_uint16 (resolve (m_x s) (getWidth det))"

definition local_above :: "detector \<Rightarrow> 'd counter \<Rightarrow> 16 word" where
  "local_above det s =
     to_uint16 (float32 (real (unat (getHeight det)) - resolve (m_miny s) (getHeight det)))"

definition local_below :: "detector \<Rightarrow> 'd counter \<Rightarrow> 16 word" where
  "local_below det s =
     to_uint16 (float32 (real (unat (getHeight det)) - resolve (m_maxy s) (getHeight det)))"

text \<open>
  The loops thread the motion buffer and the list of the \<^verbatim>\<open>isForeground\<close> calls made
  so far, in order, as (column, row). The counter \<open>s\<close> they read \<^verbatim>\<open>_t\<close>, \<^verbatim>\<open>_lag\<close> and
  \<^verbatim>\<open>_sparsity\<close> from is the one after the tick has advanced. Loop variables have the
  source's types: \<^verbatim>\<open>uint16_t y\<close>, \<^verbatim>\<open>uint8_t j\<close>; \<^verbatim>\<open>int16_t i\<close> runs from -3 to 4 and is
  an \<open>int\<close>. The operands of \<^verbatim>\<open>i * _sparsity + j\<close>, \<^verbatim>\<open>dx + x\<close> and \<^verbatim>\<open>_t - _lag\<close> are
  promoted to \<^verbatim>\<open>int\<close> (32 bits), where none of them overflows: they are computed in
  \<open>int\<close>, through \<open>uint\<close>.
\<close>

text \<open>Lines 123 to 128: the rows of one column, until the first foreground cell.\<close>

function scan_rows ::
  "detector \<Rightarrow> 'd counter \<Rightarrow> int \<Rightarrow> int \<Rightarrow> 16 word \<Rightarrow> 16 word \<Rightarrow>
   16 word list \<times> (int \<times> int) list \<Rightarrow> 16 word list \<times> (int \<times> int) list" where
  "scan_rows det s i col y above_row (mo, calls) =
     (if y < above_row then
        (if isForeground det col (uint y)
         then (mo[nat (i + 3) := m_t s], calls @ [(col, uint y)])
         else scan_rows det s i col (y + 1) above_row (mo, calls @ [(col, uint y)]))
      else (mo, calls))"
  by pat_completeness auto
termination
  by (relation "measure (\<lambda>(det, s, i, col, y, above_row, st). unat above_row - unat y)")
     (simp, (clarsimp, unat_arith)+)

declare scan_rows.simps [simp del]

text \<open>Lines 117 to 132: the columns of one bin.\<close>

function scan_cols ::
  "detector \<Rightarrow> 'd counter \<Rightarrow> 16 word \<Rightarrow> 16 word \<Rightarrow> 16 word \<Rightarrow> int \<Rightarrow> 8 word \<Rightarrow>
   16 word list \<times> (int \<times> int) list \<Rightarrow> 16 word list \<times> (int \<times> int) list" where
  "scan_cols det s x below_row above_row i j (mo, calls) =
     (if j < m_sparsity s then
        (let dx = i * uint (m_sparsity s) + uint j in
         if dx + uint x < 0 \<or> dx + uint x > uint (getWidth det)
         then scan_cols det s x below_row above_row i (j + 1) (mo, calls)
         else
           (case scan_rows det s i (dx + uint x) below_row above_row (mo, calls) of
              (mo', calls') \<Rightarrow>
                if mo' ! nat (i + 3) \<noteq> 0 then (mo', calls')
                else scan_cols det s x below_row above_row i (j + 1) (mo', calls')))
      else (mo, calls))"
  by pat_completeness auto
termination
  by (relation "measure (\<lambda>(det, s, x, below_row, above_row, i, j, st).
        unat (m_sparsity s) - unat j)")
     (simp, (clarsimp, unat_arith)+)

declare scan_cols.simps [simp del]

text \<open>Lines 110 to 133: the seven bins, the one on the line left out.\<close>

function scan_bins ::
  "detector \<Rightarrow> 'd counter \<Rightarrow> 16 word \<Rightarrow> 16 word \<Rightarrow> 16 word \<Rightarrow> int \<Rightarrow>
   16 word list \<times> (int \<times> int) list \<Rightarrow> 16 word list \<times> (int \<times> int) list" where
  "scan_bins det s x below_row above_row i (mo, calls) =
     (if i \<le> 3 then
        (if i = 0 then scan_bins det s x below_row above_row (i + 1) (mo, calls)
         else if uint (mo ! nat (i + 3)) \<ge> uint (m_t s) - uint (m_lag s)
         then scan_bins det s x below_row above_row (i + 1) (mo, calls)
         else scan_bins det s x below_row above_row (i + 1)
                (scan_cols det s x below_row above_row i 0 (mo, calls)))
      else (mo, calls))"
  by pat_completeness auto
termination
  by (relation "measure (\<lambda>(det, s, x, below_row, above_row, i, st). nat (4 - i))") auto

declare scan_bins.simps [simp del]

text \<open>Lines 103 to 106: \<^verbatim>\<open>_t += 1; if (_t > 65000) _t = 1;\<close> on a \<^verbatim>\<open>uint16_t\<close>.\<close>

definition advance :: "16 word \<Rightarrow> 16 word" where
  "advance t = (let t' = t + 1 in if t' > 65000 then 1 else t')"

text \<open>
  \<^verbatim>\<open>update()\<close> returns its \<^verbatim>\<open>bool\<close>, the counter it leaves and the
  \<^verbatim>\<open>isForeground\<close> calls it made.
\<close>

definition update ::
  "detector \<Rightarrow> 'd counter \<Rightarrow> bool \<times> 'd counter \<times> (int \<times> int) list" where
  "update det s =
     (let x = local_x det s;
          above_row = local_above det s;
          below_row = local_below det s
      in
        if x < 1 then
          (case setErrorMessage ''x-coordinate must be >= 8'' s of (r, s') \<Rightarrow> (r, s', []))
        else if below_row \<ge> above_row then
          (case setErrorMessage ''above/below limits mismatch'' s of (r, s') \<Rightarrow> (r, s', []))
        else
          (let s1 = s\<lparr>m_t := advance (m_t s)\<rparr> in
           case scan_bins det s1 x below_row above_row (- 3) (m_motion s1, []) of
             (mo, calls) \<Rightarrow>
               (case setErrorMessage [] (s1\<lparr>m_motion := mo\<rparr>) of (r, s') \<Rightarrow> (r, s', calls))))"

section \<open>The crossing queries\<close>

text \<open>
  Lines 236 to 248. \<^verbatim>\<open>_motion[a]\<close>, \<^verbatim>\<open>_t\<close> and \<^verbatim>\<open>_lag\<close> are promoted to \<^verbatim>\<open>int\<close>
  before \<^verbatim>\<open>_t - 2 * _lag\<close> and \<^verbatim>\<open>_motion[a] - _motion[b]\<close> are computed, so both
  differences are signed. The last line returns a \<^verbatim>\<open>bool\<close> as \<^verbatim>\<open>uint8_t\<close>: 1 or 0.
\<close>

definition gt :: "'d counter \<Rightarrow> int \<Rightarrow> int \<Rightarrow> 8 word" where
  "gt s a b =
     (let ma = m_motion s ! nat (a + 3); mb = m_motion s ! nat (b + 3) in
      if ma = 0 \<or> mb = 0 \<or> uint ma < uint (m_t s) - 2 * uint (m_lag s) then 0
      else if ma > mb \<and> uint ma - uint mb \<le> uint (m_lag s) then 10
      else if ma \<ge> mb \<and> uint ma - uint mb \<le> uint (m_lag s) then 1 else 0)"

text \<open>
  \<^verbatim>\<open>debounced()\<close> and \<^verbatim>\<open>touch()\<close> belong to \<^verbatim>\<open>traits/Debounces.h\<close>, which is not
  among the sources: the queries take them as parameters, \<open>debounced\<close> reading the
  state of the trait and \<open>touch\<close> changing it. The sum of four \<^verbatim>\<open>uint8_t\<close> is
  stored in a \<^verbatim>\<open>uint8_t\<close>: addition of \<open>8 word\<close>.
\<close>

definition crossedFromLeftToRight ::
  "('d \<Rightarrow> bool) \<Rightarrow> ('d \<Rightarrow> 'd) \<Rightarrow> 'd counter \<Rightarrow> bool \<times> 'd counter" where
  "crossedFromLeftToRight debounced touch s =
     (if \<not> debounced (m_debounce s) then (False, s)
      else
        (let crossed = gt s (- 2) (- 3) + gt s (- 1) (- 2) + gt s 1 (- 1) + gt s 2 1 in
         if crossed > 20 \<and> crossed mod 10 > 0
         then (True, (s\<lparr>m_ltrCount := m_ltrCount s + 1\<rparr>)\<lparr>m_debounce := touch (m_debounce s)\<rparr>)
         else (False, s)))"

definition crossedFromRightToLeft ::
  "('d \<Rightarrow> bool) \<Rightarrow> ('d \<Rightarrow> 'd) \<Rightarrow> 'd counter \<Rightarrow> bool \<times> 'd counter" where
  "crossedFromRightToLeft debounced touch s =
     (if \<not> debounced (m_debounce s) then (False, s)
      else
        (let crossed = gt s (- 2) (- 1) + gt s (- 1) 1 + gt s 1 2 + gt s 2 3 in
         if crossed > 20 \<and> crossed mod 10 > 0
         then (True, (s\<lparr>m_rtlCount := m_rtlCount s + 1\<rparr>)\<lparr>m_debounce := touch (m_debounce s)\<rparr>)
         else (False, s)))"

section \<open>Shapes of the motion buffer\<close>

text \<open>
  Slot 0 is bin -3, slot 1 bin -2, slot 2 bin -1, slot 4 bin +1, slot 5 bin +2 and
  slot 6 bin +3. \<open>stamped_slots\<close> counts the slots that hold a stamp.
\<close>

definition stamped_slots :: "16 word list \<Rightarrow> nat" where
  "stamped_slots mo = length (filter (\<lambda>m. m \<noteq> 0) mo)"

text \<open>
  Bins -3, -2, -1, +1 stamped in this order at strictly increasing ticks, each within
  \<^verbatim>\<open>_lag\<close> of the one before, bins +2 and +3 not stamped.
\<close>

definition stamped_left_to_right :: "'d counter \<Rightarrow> bool" where
  "stamped_left_to_right s =
     (let mo = m_motion s; l = uint (m_lag s) in
      length mo = 7 \<and> mo ! 0 \<noteq> 0 \<and>
      mo ! 0 < mo ! 1 \<and> mo ! 1 < mo ! 2 \<and> mo ! 2 < mo ! 4 \<and>
      uint (mo ! 1) - uint (mo ! 0) \<le> l \<and>
      uint (mo ! 2) - uint (mo ! 1) \<le> l \<and>
      uint (mo ! 4) - uint (mo ! 2) \<le> l \<and>
      mo ! 5 = 0 \<and> mo ! 6 = 0)"

text \<open>
  The same with exactly one of the three steps a tie (two neighbouring bins stamped at
  the same tick), and the stamp of bin -2, the oldest that \<^verbatim>\<open>gt\<close> tests for age, not
  older than \<^verbatim>\<open>_t - 2 * _lag\<close>.
\<close>

definition stamped_left_to_right_tied :: "'d counter \<Rightarrow> bool" where
  "stamped_left_to_right_tied s =
     (let mo = m_motion s; l = uint (m_lag s) in
      length mo = 7 \<and> mo ! 0 \<noteq> 0 \<and>
      (mo ! 0 = mo ! 1 \<and> mo ! 1 < mo ! 2 \<and> mo ! 2 < mo ! 4 \<or>
       mo ! 0 < mo ! 1 \<and> mo ! 1 = mo ! 2 \<and> mo ! 2 < mo ! 4 \<or>
       mo ! 0 < mo ! 1 \<and> mo ! 1 < mo ! 2 \<and> mo ! 2 = mo ! 4) \<and>
      uint (mo ! 1) - uint (mo ! 0) \<le> l \<and>
      uint (mo ! 2) - uint (mo ! 1) \<le> l \<and>
      uint (mo ! 4) - uint (mo ! 2) \<le> l \<and>
      mo ! 5 = 0 \<and> mo ! 6 = 0 \<and>
      uint (m_t s) - 2 * l \<le> uint (mo ! 1))"

section \<open>Sequences of calls\<close>

text \<open>
  The public methods that change the object, as calls. \<open>Elapse d\<close> stands for what
  happens to the debounce trait between two calls (its clock runs, its own setters are
  used): the state of the trait becomes \<open>d\<close>.
\<close>

datatype 'd call =
    LineAt real | Above real | Below real | Lag "8 word" | Sparsity "8 word"
  | Update detector | CrossedFromLeftToRight | CrossedFromRightToLeft
  | Elapse 'd

fun exec :: "('d \<Rightarrow> bool) \<Rightarrow> ('d \<Rightarrow> 'd) \<Rightarrow> 'd call \<Rightarrow> 'd counter \<Rightarrow> 'd counter" where
  "exec debounced touch (LineAt x) s = lineAt x s"
| "exec debounced touch (Above y) s = above y s"
| "exec debounced touch (Below y) s = below y s"
| "exec debounced touch (Lag l) s = lag l s"
| "exec debounced touch (Sparsity sp) s = sparsity sp s"
| "exec debounced touch (Update det) s = fst (snd (update det s))"
| "exec debounced touch CrossedFromLeftToRight s =
     snd (crossedFromLeftToRight debounced touch s)"
| "exec debounced touch CrossedFromRightToLeft s =
     snd (crossedFromRightToLeft debounced touch s)"
| "exec debounced touch (Elapse d) s = s\<lparr>m_debounce := d\<rparr>"

fun run :: "('d \<Rightarrow> bool) \<Rightarrow> ('d \<Rightarrow> 'd) \<Rightarrow> 'd call list \<Rightarrow> 'd counter \<Rightarrow> 'd counter" where
  "run debounced touch [] s = s"
| "run debounced touch (c # cs) s = run debounced touch cs (exec debounced touch c s)"

text \<open>A call succeeded when it was an \<^verbatim>\<open>update()\<close> that returned true.\<close>

fun succeeded :: "'d call \<Rightarrow> 'd counter \<Rightarrow> bool" where
  "succeeded (Update det) s = fst (update det s)"
| "succeeded c s = False"

fun successes ::
  "('d \<Rightarrow> bool) \<Rightarrow> ('d \<Rightarrow> 'd) \<Rightarrow> 'd call list \<Rightarrow> 'd counter \<Rightarrow> nat" where
  "successes debounced touch [] s = 0"
| "successes debounced touch (c # cs) s =
     (if succeeded c s then 1 else 0) + successes debounced touch cs (exec debounced touch c s)"

text \<open>The tick after \<open>n\<close> successful updates of a new counter: 0, 1, ..., 65000, 1, ...\<close>

definition tick_after :: "nat \<Rightarrow> nat" where
  "tick_after n = (if n = 0 then 0 else (n - 1) mod 65000 + 1)"

section \<open>Concrete counters and frames\<close>

text \<open>
  An instance of the debounce trait for concrete runs: its state says whether the
  cooldown has elapsed, and \<^verbatim>\<open>touch()\<close> starts the cooldown again.
\<close>

definition cooldown_elapsed :: "bool \<Rightarrow> bool" where
  "cooldown_elapsed d = d"

definition cooldown_restart :: "bool \<Rightarrow> bool" where
  "cooldown_restart d = False"

text \<open>A counter constructed in zeroed memory, the cooldown elapsed.\<close>

definition fresh_counter :: "bool counter" where
  "fresh_counter = LineCrossingCounter [0, 0, 0, 0, 0, 0, 0] [] True"

text \<open>A counter with a given motion buffer and tick, the line at pixel 40.\<close>

definition counter_at :: "16 word list \<Rightarrow> 16 word \<Rightarrow> bool counter" where
  "counter_at mo t = (lineAt 40 fresh_counter)\<lparr>m_motion := mo, m_t := t\<rparr>"

text \<open>Frames of 20 by 2 cells: nothing moves, everything moves, column \<open>c\<close> moves.\<close>

definition frame_still :: detector where
  "frame_still = \<lparr>getWidth = 20, getHeight = 2, isForeground = (\<lambda>col row. False)\<rparr>"

definition frame_full :: detector where
  "frame_full = \<lparr>getWidth = 20, getHeight = 2, isForeground = (\<lambda>col row. True)\<rparr>"

definition frame_column :: "int \<Rightarrow> detector" where
  "frame_column c = \<lparr>getWidth = 20, getHeight = 2, isForeground = (\<lambda>col row. col = c)\<rparr>"

section \<open>Rounding to binary32\<close>

lemma round_even_of_int: "round_even (of_int m) = m"
  by (simp add: round_even_def)

lemma round_even_nonneg: "0 \<le> y \<Longrightarrow> 0 \<le> round_even y"
  by (auto simp: round_even_def Let_def)

lemma round_even_le_int:
  assumes "y \<le> of_int N"
  shows "round_even y \<le> N"
proof (cases "y = of_int N")
  case True
  then show ?thesis by (simp add: round_even_of_int)
next
  case False
  with assms have "y < of_int N" by simp
  then have "\<lfloor>y\<rfloor> < N" by (simp add: floor_less_iff)
  then show ?thesis by (auto simp: round_even_def Let_def)
qed

lemma bexp_bounds:
  assumes "0 < x"
  shows "2 powi bexp x \<le> x \<and> x < 2 powi (bexp x + 1)"
proof (cases "1 \<le> x")
  case True
  define n where "n = \<lfloor>x\<rfloor>"
  from True have n: "0 < n" by (simp add: n_def)
  from bitlen_bounds [OF n] have b: "2 ^ nat (bitlen n - 1) \<le> n" "n < 2 ^ nat (bitlen n)"
    by simp_all
  from n have k: "1 \<le> bitlen n"
    using bitlen_eq_zero_iff [of n] bitlen_nonneg [of n] by linarith
  have e: "bexp x = bitlen n - 1" using True by (simp add: bexp_def n_def)
  have "real_of_int (2 ^ nat (bitlen n - 1)) \<le> real_of_int n"
    using b(1) by (simp only: of_int_le_iff)
  also have "\<dots> \<le> x" by (simp add: n_def)
  finally have lo: "2 powi (bitlen n - 1) \<le> x"
    using k by (simp add: power_int_def)
  have "n + 1 \<le> 2 ^ nat (bitlen n)" using b(2) by simp
  then have "real_of_int (n + 1) \<le> real_of_int (2 ^ nat (bitlen n))"
    by (simp only: of_int_le_iff)
  moreover have "x < real_of_int (n + 1)" by (simp add: n_def)
  ultimately have "x < real_of_int (2 ^ nat (bitlen n))" by linarith
  then have hi: "x < 2 powi (bitlen n - 1 + 1)"
    using k by (simp add: power_int_def)
  from lo hi show ?thesis by (simp add: e)
next
  case False
  define c where "c = \<lceil>1 / x\<rceil>"
  from False assms have y: "1 < 1 / x" by simp
  then have c: "2 \<le> c" unfolding c_def by (simp add: le_ceiling_iff)
  then have p: "0 < c - 1" by simp
  define k where "k = bitlen (c - 1)"
  from bitlen_bounds [OF p] have b: "2 ^ nat (k - 1) \<le> c - 1" "c - 1 < 2 ^ nat k"
    by (simp_all add: k_def)
  from p have k: "1 \<le> k"
    using bitlen_eq_zero_iff [of "c - 1"] bitlen_nonneg [of "c - 1"] unfolding k_def by linarith
  have e: "bexp x = - k" using False by (simp add: bexp_def c_def k_def)
  have "c \<le> 2 ^ nat k" using b(2) by simp
  then have "real_of_int c \<le> real_of_int (2 ^ nat k)" by (simp only: of_int_le_iff)
  then have "real_of_int c \<le> 2 ^ nat k" by simp
  moreover have "1 / x \<le> real_of_int c" by (simp add: c_def)
  ultimately have "1 / x \<le> 2 ^ nat k" by linarith
  then have "1 \<le> 2 ^ nat k * x" using assms by (simp add: field_simps)
  then have lo: "2 powi (- k) \<le> x"
    using k by (simp add: power_int_def field_simps)
  have "real_of_int (2 ^ nat (k - 1)) \<le> real_of_int (c - 1)"
    using b(1) by (simp only: of_int_le_iff)
  then have "2 ^ nat (k - 1) \<le> real_of_int c - 1" by simp
  moreover have "real_of_int c - 1 < 1 / x"
    unfolding c_def using ceiling_correct [of "1 / x"] by linarith
  ultimately have "2 ^ nat (k - 1) < 1 / x" by linarith
  then have "2 ^ nat (k - 1) * x < 1" using assms by (simp add: field_simps)
  moreover have "2 powi (- k + 1) = inverse ((2::real) powi (k - 1))"
    using power_int_minus [of "2::real" "k - 1"] by simp
  moreover have "(2::real) powi (k - 1) = 2 ^ nat (k - 1)"
    using k by (simp add: power_int_def)
  ultimately have "x * 2 ^ nat (k - 1) < 2 powi (- k + 1) * 2 ^ nat (k - 1)"
    by (simp add: field_simps)
  then have hi: "x < 2 powi (- k + 1)"
    by (rule mult_right_less_imp_less) simp
  from lo hi show ?thesis by (simp add: e)
qed

lemma bexp_unique:
  assumes "2 powi k \<le> x" "x < 2 powi (k + 1)"
  shows "bexp x = k"
proof -
  have x: "0 < x" using assms(1) zero_less_power_int [of "2::real" k] by linarith
  from bexp_bounds [OF x] have b: "2 powi bexp x \<le> x" "x < 2 powi (bexp x + 1)" by simp_all
  have "\<not> bexp x < k"
  proof
    assume "bexp x < k"
    then have "bexp x + 1 \<le> k" by simp
    then have "(2::real) powi (bexp x + 1) \<le> 2 powi k" by (simp add: power_int_increasing)
    with b(2) assms(1) show False by linarith
  qed
  moreover have "\<not> k < bexp x"
  proof
    assume "k < bexp x"
    then have "k + 1 \<le> bexp x" by simp
    then have "(2::real) powi (k + 1) \<le> 2 powi bexp x" by (simp add: power_int_increasing)
    with b(1) assms(2) show False by linarith
  qed
  ultimately show ?thesis by linarith
qed

lemma float32_0: "float32 0 = 0"
  by (simp add: float32_def)

lemma float32_nonneg: "0 \<le> x \<Longrightarrow> 0 \<le> float32 x"
  by (cases "x = 0") (auto simp: float32_def Let_def round_even_nonneg)


lemma float32_pos:
  "0 < x \<Longrightarrow>
   float32 x = of_int (round_even (x / 2 powi (max (bexp x) (- 126) - 23)))
                 * 2 powi (max (bexp x) (- 126) - 23)"
  by (simp add: float32_def Let_def)

lemma float32_le_int:
  assumes "0 \<le> x" "x \<le> of_int N" "x < 16777216"
  shows "float32 x \<le> of_int N"
proof (cases "x = 0")
  case True
  with assms show ?thesis by (simp add: float32_0)
next
  case False
  with assms have x: "0 < x" by simp
  define e where "e = max (bexp x) (- 126)"
  have "\<not> 24 \<le> bexp x"
  proof
    assume "24 \<le> bexp x"
    then have "(2::real) powi 24 \<le> 2 powi bexp x" by (rule power_int_increasing) simp
    moreover have "(2::real) powi 24 = 16777216" by simp
    ultimately show False using bexp_bounds [OF x] assms(3) by linarith
  qed
  then have e: "e \<le> 23" by (simp add: e_def)
  define j where "j = nat (23 - e)"
  have q: "2 powi (e - 23) = inverse ((2::real) ^ j)"
    using e power_int_minus [of "2::real" "23 - e"] by (simp add: j_def power_int_def)
  have "x / 2 powi (e - 23) = x * 2 ^ j" by (simp add: q divide_inverse)
  also have "\<dots> \<le> of_int N * 2 ^ j" using assms(2) by simp
  also have "\<dots> = of_int (N * 2 ^ j)" by simp
  finally have "round_even (x / 2 powi (e - 23)) \<le> N * 2 ^ j" by (rule round_even_le_int)
  then have "real_of_int (round_even (x / 2 powi (e - 23))) \<le> real_of_int (N * 2 ^ j)"
    by (simp only: of_int_le_iff)
  then have "real_of_int (round_even (x / 2 powi (e - 23))) * inverse (2 ^ j)
               \<le> real_of_int (N * 2 ^ j) * inverse (2 ^ j)"
    by (rule mult_right_mono) simp
  also have "real_of_int (N * 2 ^ j) * inverse (2 ^ j) = of_int N" by simp
  finally show ?thesis
    by (simp add: float32_pos [OF x] e_def [symmetric] q)
qed

lemma float32_div8:
  assumes "float32 v = v" "1 \<le> v"
  shows "float32 (v / 8) = v / 8"
proof -
  from assms(2) have v: "0 < v" and v8: "0 < v / 8" by simp_all
  define e where "e = bexp v"
  from bexp_bounds [OF v] have b: "2 powi e \<le> v" "v < 2 powi (e + 1)" by (simp_all add: e_def)
  have "\<not> e < 0"
  proof
    assume "e < 0"
    then have "e + 1 \<le> 0" by simp
    then have "(2::real) powi (e + 1) \<le> 2 powi 0" by (rule power_int_increasing) simp
    with b(2) assms(2) show False by simp
  qed
  then have e: "0 \<le> e" by simp
  define q where "q = (2::real) powi (e - 23)"
  have q: "0 < q" by (simp add: q_def)
  define m where "m = round_even (v / q)"
  from float32_pos [OF v] assms(1) e have veq: "of_int m * q = v"
    by (simp add: e_def [symmetric] m_def q_def max_def)
  then have vq: "v / q = of_int m" using q by (simp add: field_simps)
  have p1: "(2::real) powi (e - 3) = 2 powi e / 8"
    using power_int_diff [of "2::real" e 3] by simp
  have p2: "(2::real) powi (e - 2) = 2 powi (e + 1) / 8"
    using power_int_diff [of "2::real" "e + 1" 3] by simp
  have p3: "(2::real) powi (e - 26) = q / 8"
    using power_int_diff [of "2::real" "e - 23" 3] by (simp add: q_def)
  have lo: "2 powi (e - 3) \<le> v / 8" using b(1) by (simp add: p1)
  have hi: "v / 8 < 2 powi (e - 3 + 1)" using b(2) by (simp add: p2)
  from lo hi have "bexp (v / 8) = e - 3" by (rule bexp_unique)
  with e have e8: "max (bexp (v / 8)) (- 126) = e - 3" by simp
  have "float32 (v / 8) = of_int m * (q / 8)"
    by (simp add: float32_pos [OF v8] e8 p3 m_def)
  also have "\<dots> = v / 8" using veq by simp
  finally show ?thesis .
qed

text \<open>Some binary32 values, for the concrete runs below.\<close>

lemma binary32_values:
  "float32 1 = 1" "float32 2 = 2" "float32 5 = 5" "float32 10 = 10" "float32 (3 / 2) = 3 / 2"
  "float32 (999 / 1000) = 16760439 / 16777216"
  "float32 (16760439 / 8388608) = 16760439 / 8388608"
  "float32 (16777 / 8388608) = 16777 / 8388608"
  by (simp_all add: float32_def bexp_def round_even_def compute_bitlen)

text \<open>
  Products and differences that are rounded: 0.7f * 20 is 14, 15 - 0.2f * 15 is 12,
  40 - (8 + 2 ^ - 20) / 8 is 39 and 0.01f * 100 is 1 in binary32, where the exact
  results are just below these integers.
\<close>

lemma binary32_rounding_examples:
  "to_uint16 (resolve (float32 (7 / 10)) 20) = 14"
  "to_uint16 (float32 (15 - resolve (float32 (2 / 10)) 15)) = 12"
  "to_uint16 (float32 (40 - resolve (8 + 1 / 2 ^ 20) 40)) = 39"
  "to_uint16 (resolve (float32 (1 / 100)) 100) = 1"
  by (simp_all add: resolve_def to_uint16_def float32_def bexp_def round_even_def
      compute_bitlen)

section \<open>The motion buffer keeps its seven slots\<close>

text \<open>
  No call changes the length of the buffer: a counter constructed over seven slots of
  memory has seven slots after every sequence of calls.
\<close>

lemma scan_rows_length:
  "length (fst (scan_rows det s i col y above_row st)) = length (fst st)"
proof (induction det s i col y above_row st rule: scan_rows.induct)
  case (1 det s i col y above_row mo calls)
  then show ?case
    by (simp add: scan_rows.simps [of det s i col y above_row mo calls])
qed

lemma scan_cols_length:
  "length (fst (scan_cols det s x below_row above_row i j st)) = length (fst st)"
proof (induction det s x below_row above_row i j st rule: scan_cols.induct)
  case (1 det s x below_row above_row i j mo calls)
  show ?case
  proof (cases "scan_rows det s i (i * uint (m_sparsity s) + uint j + uint x)
                 below_row above_row (mo, calls)")
    case (Pair mo' calls')
    with scan_rows_length [of det s i "i * uint (m_sparsity s) + uint j + uint x"
        below_row above_row "(mo, calls)"]
    have l: "length mo' = length mo" by simp
    from 1 Pair l show ?thesis
      by (simp add: scan_cols.simps [of det s x below_row above_row i j mo calls] Let_def)
  qed
qed

lemma scan_bins_length:
  "length (fst (scan_bins det s x below_row above_row i st)) = length (fst st)"
proof (induction det s x below_row above_row i st rule: scan_bins.induct)
  case (1 det s x below_row above_row i mo calls)
  then show ?case
    by (simp add: scan_bins.simps [of det s x below_row above_row i mo calls] scan_cols_length)
qed

lemma update_length:
  "length (m_motion (fst (snd (update det s)))) = length (m_motion s)"
  using scan_bins_length [of det "s\<lparr>m_t := advance (m_t s)\<rparr>" "local_x det s"
      "local_below det s" "local_above det s" "- 3" "(m_motion s, [])"]
  by (auto simp add: update_def setErrorMessage_def Let_def split: prod.splits)

lemma exec_length:
  "length (m_motion (exec debounced touch c s)) = length (m_motion s)"
  by (cases c) (simp_all add: update_length lineAt_def above_def below_def lag_def sparsity_def
      crossedFromLeftToRight_def crossedFromRightToLeft_def Let_def)

lemma run_length:
  "length (m_motion (run debounced touch cs s)) = length (m_motion s)"
  by (induction cs arbitrary: s) (simp_all add: exec_length)

lemma seven_slots:
  "length mem = 7 \<Longrightarrow>
   length (m_motion (run debounced touch cs (LineCrossingCounter mem e0 d0))) = 7"
  by (simp add: run_length LineCrossingCounter_def)

section \<open>Validation in update()\<close>

text \<open>
  C7. \<^verbatim>\<open>update()\<close> returns false exactly when the resolved line column is below 1
  or the resolved below-row is not smaller than the resolved above-row. It then
  stores the message of the failed check and changes nothing else: the tick, the
  motion buffer, both counters and the configuration are as before, and the
  detector is not asked about any cell.
\<close>

theorem update_fails_iff_invalid:
  "(fst (update det s) \<longleftrightarrow>
      \<not> (local_x det s < 1 \<or> local_above det s \<le> local_below det s)) \<and>
   (local_x det s < 1 \<or> local_above det s \<le> local_below det s \<longrightarrow>
      update det s =
        (False,
         s\<lparr>m_error := (if local_x det s < 1 then ''x-coordinate must be >= 8''
                        else ''above/below limits mismatch'')\<rparr>,
         []))"
  by (simp add: update_def setErrorMessage_def Let_def split: prod.splits)

theorem update_fails_iff_invalid_witness:
  "local_x frame_full fresh_counter < 1 \<and>
   update frame_full fresh_counter =
     (False, fresh_counter\<lparr>m_error := ''x-coordinate must be >= 8''\<rparr>, []) \<and>
   \<not> local_x frame_full (above 16 (lineAt 40 fresh_counter)) < 1 \<and>
   local_above frame_full (above 16 (lineAt 40 fresh_counter))
     \<le> local_below frame_full (above 16 (lineAt 40 fresh_counter)) \<and>
   update frame_full (above 16 (lineAt 40 fresh_counter)) =
     (False, (above 16 (lineAt 40 fresh_counter))\<lparr>m_error := ''above/below limits mismatch''\<rparr>, [])"
  using update_fails_iff_invalid [of frame_full fresh_counter]
    update_fails_iff_invalid [of frame_full "above 16 (lineAt 40 fresh_counter)"]
  by (simp add: local_x_def local_above_def local_below_def resolve_def to_uint16_def
      binary32_values float32_0 frame_full_def fresh_counter_def LineCrossingCounter_def
      lineAt_def above_def)

section \<open>The first ticks\<close>

lemma scan_bins_all_fresh:
  "uint (m_t s) \<le> uint (m_lag s) \<Longrightarrow>
   scan_bins det s x below_row above_row i st = st"
proof (induction det s x below_row above_row i st rule: scan_bins.induct)
  case (1 det s x below_row above_row i mo calls)
  have "uint (m_t s) - uint (m_lag s) \<le> uint (mo ! nat (i + 3))"
    using "1.prems" uint_ge_0 [of "mo ! nat (i + 3)"] by linarith
  with 1 show ?case
    by (simp add: scan_bins.simps [of det s x below_row above_row i mo calls])
qed

text \<open>
  C10. With a valid configuration, an \<^verbatim>\<open>update()\<close> whose tick after the increment is
  not above \<^verbatim>\<open>_lag\<close> skips every bin, whatever the frame shows: \<^verbatim>\<open>_t - _lag\<close> is
  computed in \<^verbatim>\<open>int\<close> and is not positive, so every slot compares as fresh. The call
  returns true, asks the detector nothing and leaves all seven slots as they were;
  only the tick advances and the error message is cleared.
\<close>

theorem update_skips_all_bins_while_tick_within_lag:
  assumes "1 \<le> local_x det s" and "local_below det s < local_above det s"
    and "uint (advance (m_t s)) \<le> uint (m_lag s)"
  shows "update det s = (True, s\<lparr>m_t := advance (m_t s), m_error := []\<rparr>, [])"
  using assms
  by (simp add: update_def setErrorMessage_def Let_def scan_bins_all_fresh
      not_le [symmetric] not_less)

theorem update_skips_all_bins_while_tick_within_lag_witness:
  "1 \<le> local_x frame_full (lineAt 40 fresh_counter) \<and>
   local_below frame_full (lineAt 40 fresh_counter)
     < local_above frame_full (lineAt 40 fresh_counter) \<and>
   uint (advance (m_t (lineAt 40 fresh_counter))) \<le> uint (m_lag (lineAt 40 fresh_counter)) \<and>
   update frame_full (lineAt 40 fresh_counter) =
     (True, (lineAt 40 fresh_counter)\<lparr>m_t := 1, m_error := []\<rparr>, [])"
proof -
  have x: "1 \<le> local_x frame_full (lineAt 40 fresh_counter)"
    by (simp add: local_x_def resolve_def to_uint16_def binary32_values float32_0
        frame_full_def fresh_counter_def LineCrossingCounter_def lineAt_def)
  have y: "local_below frame_full (lineAt 40 fresh_counter)
             < local_above frame_full (lineAt 40 fresh_counter)"
    by (simp add: local_above_def local_below_def resolve_def to_uint16_def binary32_values
        float32_0 frame_full_def fresh_counter_def LineCrossingCounter_def lineAt_def)
  have t: "advance (m_t (lineAt 40 fresh_counter)) = 1"
    by (simp add: advance_def fresh_counter_def LineCrossingCounter_def lineAt_def)
  have l: "uint (advance (m_t (lineAt 40 fresh_counter)))
             \<le> uint (m_lag (lineAt 40 fresh_counter))"
    by (simp add: t) (simp add: fresh_counter_def LineCrossingCounter_def lineAt_def)
  show ?thesis
    using x y l update_skips_all_bins_while_tick_within_lag [OF x y l] by (simp add: t)
qed

section \<open>The tick\<close>

lemma tick_after_le: "tick_after n \<le> 65000"
proof -
  have "(n - 1) mod 65000 \<le> 64999"
    using mod_less_divisor [of 65000 "n - 1"] by linarith
  then show ?thesis by (simp add: tick_after_def)
qed

lemma update_tick:
  "m_t (fst (snd (update det s))) = (if fst (update det s) then advance (m_t s) else m_t s)"
  by (simp add: update_def setErrorMessage_def Let_def split: prod.splits)

lemma advance_unat:
  assumes "unat t \<le> 65000"
  shows "unat (advance t) = (if unat t = 65000 then 1 else unat t + 1)"
proof -
  have "unat (t + 1) = unat t + 1"
    using assms by (simp add: unat_word_ariths)
  then show ?thesis
    using assms by (auto simp: advance_def Let_def word_less_nat_alt)
qed

lemma tick_after_Suc:
  "tick_after (Suc n) = (if tick_after n = 65000 then 1 else tick_after n + 1)"
proof (cases n)
  case 0
  then show ?thesis by (simp add: tick_after_def)
next
  case (Suc k)
  have "Suc k mod 65000 = (if Suc (k mod 65000) = 65000 then 0 else Suc (k mod 65000))"
    by (rule mod_Suc)
  with Suc show ?thesis by (simp add: tick_after_def)
qed

lemma exec_tick:
  "unat (m_t s) = tick_after k \<Longrightarrow>
   unat (m_t (exec debounced touch c s)) = tick_after (k + (if succeeded c s then 1 else 0))"
proof (cases c)
  case (Update det)
  assume k: "unat (m_t s) = tick_after k"
  then have "unat (m_t s) \<le> 65000" by (simp add: tick_after_le)
  from advance_unat [OF this] k Update show ?thesis
    by (simp add: update_tick tick_after_Suc)
qed (simp_all add: lineAt_def above_def below_def lag_def sparsity_def
      crossedFromLeftToRight_def crossedFromRightToLeft_def Let_def)

lemma run_tick:
  "unat (m_t s) = tick_after k \<Longrightarrow>
   unat (m_t (run debounced touch cs s)) = tick_after (k + successes debounced touch cs s)"
proof (induction cs arbitrary: s k)
  case Nil
  then show ?case by simp
next
  case (Cons c cs)
  from Cons.IH [OF exec_tick [OF Cons.prems, of debounced touch c]]
  show ?case by (simp add: add.assoc)
qed

text \<open>
  C8. Take any sequence of calls on a newly constructed counter, \<open>n\<close> of them
  successful updates. The tick is then 0 exactly when \<open>n = 0\<close>; after a successful
  update it lies between 1 and 65000; it is \<open>tick_after n\<close>, which counts 1, ..., 65000
  and starts again at 1. A further successful \<^verbatim>\<open>update()\<close> adds exactly 1 to the tick
  as a number, so the 16-bit addition does not wrap, except at 65000 where
  the tick becomes 1.
\<close>

theorem tick_after_any_calls:
  "let s0 = LineCrossingCounter mem e0 d0;
       s = run debounced touch cs s0;
       n = successes debounced touch cs s0
   in (m_t s = 0 \<longleftrightarrow> n = 0) \<and>
      (0 < n \<longrightarrow> 1 \<le> unat (m_t s) \<and> unat (m_t s) \<le> 65000) \<and>
      unat (m_t s) = tick_after n \<and>
      (\<forall>det. fst (update det s) \<longrightarrow>
         unat (m_t (fst (snd (update det s)))) =
           (if unat (m_t s) + 1 > 65000 then 1 else unat (m_t s) + 1))"
proof -
  define s0 :: "'a counter" where "s0 = LineCrossingCounter mem e0 d0"
  define s where "s = run debounced touch cs s0"
  define n where "n = successes debounced touch cs s0"
  have "unat (m_t s0) = tick_after 0"
    by (simp add: s0_def LineCrossingCounter_def tick_after_def)
  from run_tick [OF this, of debounced touch cs]
  have t: "unat (m_t s) = tick_after n" by (simp add: s_def n_def)
  have le: "unat (m_t s) \<le> 65000" by (simp add: t tick_after_le)
  have z: "m_t s = 0 \<longleftrightarrow> n = 0"
    using t by (simp add: tick_after_def unat_eq_0 [symmetric] del: unat_eq_0)
  have p: "0 < n \<longrightarrow> 1 \<le> unat (m_t s)"
    using t by (simp add: tick_after_def)
  have u: "fst (update det s) \<longrightarrow>
         unat (m_t (fst (snd (update det s)))) =
           (if unat (m_t s) + 1 > 65000 then 1 else unat (m_t s) + 1)" for det
    using advance_unat [OF le] le by (simp add: update_tick)
  show ?thesis
    unfolding Let_def s0_def [symmetric] s_def [symmetric] n_def [symmetric]
    using z p le t u by blast
qed

theorem tick_after_any_calls_witness:
  "successes cooldown_elapsed cooldown_restart
     [LineAt 40, Update frame_full, CrossedFromLeftToRight, Update frame_full] fresh_counter = 2 \<and>
   unat (m_t (run cooldown_elapsed cooldown_restart
     [LineAt 40, Update frame_full, CrossedFromLeftToRight, Update frame_full] fresh_counter)) = 2 \<and>
   fst (update frame_full (run cooldown_elapsed cooldown_restart
     [LineAt 40, Update frame_full, CrossedFromLeftToRight, Update frame_full] fresh_counter)) \<and>
   unat (m_t (fst (snd (update frame_full (run cooldown_elapsed cooldown_restart
     [LineAt 40, Update frame_full, CrossedFromLeftToRight, Update frame_full]
     fresh_counter))))) = 3"
proof -
  have n: "successes cooldown_elapsed cooldown_restart
     [LineAt 40, Update frame_full, CrossedFromLeftToRight, Update frame_full]
     (LineCrossingCounter [0, 0, 0, 0, 0, 0, 0] [] True) = 2"
    by (simp add: update_def local_x_def local_above_def local_below_def resolve_def
        to_uint16_def binary32_values float32_0 frame_full_def LineCrossingCounter_def
        lineAt_def setErrorMessage_def advance_def scan_bins.simps
        crossedFromLeftToRight_def cooldown_elapsed_def gt_def)
  have ok: "fst (update frame_full (run cooldown_elapsed cooldown_restart
     [LineAt 40, Update frame_full, CrossedFromLeftToRight, Update frame_full]
     (LineCrossingCounter [0, 0, 0, 0, 0, 0, 0] [] True)))"
    by (simp add: update_def local_x_def local_above_def local_below_def resolve_def
        to_uint16_def binary32_values float32_0 frame_full_def LineCrossingCounter_def
        lineAt_def setErrorMessage_def advance_def scan_bins.simps
        crossedFromLeftToRight_def cooldown_elapsed_def gt_def)
  show ?thesis
    unfolding fresh_counter_def
    using ok
      tick_after_any_calls [of "[0, 0, 0, 0, 0, 0, 0]" "[]" True cooldown_elapsed cooldown_restart
        "[LineAt 40, Update frame_full, CrossedFromLeftToRight, Update frame_full]"]
    unfolding Let_def n
    by (simp add: tick_after_def)
qed

section \<open>The crossing queries: acceptance\<close>

lemma gt_values: "gt s a b = 0 \<or> gt s a b = 1 \<or> gt s a b = 10"
  by (simp add: gt_def Let_def)

lemma unat_gt_le: "unat (gt s a b) \<le> 10"
  using gt_values [of s a b] by auto

lemma unat_sum4:
  fixes g1 g2 g3 g4 :: "8 word"
  assumes "unat g1 \<le> 10" "unat g2 \<le> 10" "unat g3 \<le> 10" "unat g4 \<le> 10"
  shows "unat (g1 + g2 + g3 + g4) = unat g1 + unat g2 + unat g3 + unat g4"
proof -
  have "unat g1 + unat g2 + unat g3 + unat g4 < 2 ^ LENGTH(8)"
    using assms by simp
  then show ?thesis
    by (simp add: unat_word_ariths)
qed

lemma accept_test:
  fixes c :: "8 word"
  shows "(c > 20 \<and> c mod 10 > 0) \<longleftrightarrow> (20 < unat c \<and> \<not> 10 dvd unat c)"
  by (simp add: word_less_nat_alt unat_mod dvd_eq_mod_eq_0)

text \<open>
  C2. With the debounce elapsed, every score of \<^verbatim>\<open>gt\<close> is 0, 1 or 10, and each query
  accepts exactly when the sum of its four scores, as a number, exceeds 20 and is not
  a multiple of 10 (the \<^verbatim>\<open>uint8_t\<close> sum cannot wrap: it is at most 40). Accepting
  adds 1 to the query's own 16-bit counter, calls \<^verbatim>\<open>touch()\<close> and returns true;
  otherwise the query returns false and the counter is as it was.
\<close>

theorem crossing_accepted_iff:
  assumes "debounced (m_debounce s)"
  shows "(\<forall>a b. gt s a b \<in> {0, 1, 10}) \<and>
    crossedFromLeftToRight debounced touch s =
      (if 20 < unat (gt s (- 2) (- 3)) + unat (gt s (- 1) (- 2))
                 + unat (gt s 1 (- 1)) + unat (gt s 2 1) \<and>
          \<not> 10 dvd unat (gt s (- 2) (- 3)) + unat (gt s (- 1) (- 2))
                 + unat (gt s 1 (- 1)) + unat (gt s 2 1)
       then (True, s\<lparr>m_ltrCount := m_ltrCount s + 1, m_debounce := touch (m_debounce s)\<rparr>)
       else (False, s)) \<and>
    crossedFromRightToLeft debounced touch s =
      (if 20 < unat (gt s (- 2) (- 1)) + unat (gt s (- 1) 1)
                 + unat (gt s 1 2) + unat (gt s 2 3) \<and>
          \<not> 10 dvd unat (gt s (- 2) (- 1)) + unat (gt s (- 1) 1)
                 + unat (gt s 1 2) + unat (gt s 2 3)
       then (True, s\<lparr>m_rtlCount := m_rtlCount s + 1, m_debounce := touch (m_debounce s)\<rparr>)
       else (False, s))"
proof (intro conjI)
  show "\<forall>a b. gt s a b \<in> {0, 1, 10}"
    using gt_values [of s] by auto
  show "crossedFromLeftToRight debounced touch s =
      (if 20 < unat (gt s (- 2) (- 3)) + unat (gt s (- 1) (- 2))
                 + unat (gt s 1 (- 1)) + unat (gt s 2 1) \<and>
          \<not> 10 dvd unat (gt s (- 2) (- 3)) + unat (gt s (- 1) (- 2))
                 + unat (gt s 1 (- 1)) + unat (gt s 2 1)
       then (True, s\<lparr>m_ltrCount := m_ltrCount s + 1, m_debounce := touch (m_debounce s)\<rparr>)
       else (False, s))"
    using assms
    by (simp only: crossedFromLeftToRight_def Let_def accept_test
        unat_sum4 [OF unat_gt_le unat_gt_le unat_gt_le unat_gt_le]) simp
  show "crossedFromRightToLeft debounced touch s =
      (if 20 < unat (gt s (- 2) (- 1)) + unat (gt s (- 1) 1)
                 + unat (gt s 1 2) + unat (gt s 2 3) \<and>
          \<not> 10 dvd unat (gt s (- 2) (- 1)) + unat (gt s (- 1) 1)
                 + unat (gt s 1 2) + unat (gt s 2 3)
       then (True, s\<lparr>m_rtlCount := m_rtlCount s + 1, m_debounce := touch (m_debounce s)\<rparr>)
       else (False, s))"
    using assms
    by (simp only: crossedFromRightToLeft_def Let_def accept_test
        unat_sum4 [OF unat_gt_le unat_gt_le unat_gt_le unat_gt_le]) simp
qed

theorem crossing_accepted_iff_witness:
  "cooldown_elapsed (m_debounce (counter_at [3, 4, 5, 0, 5, 0, 0] 6)) \<and>
   crossedFromLeftToRight cooldown_elapsed cooldown_restart (counter_at [3, 4, 5, 0, 5, 0, 0] 6) =
     (True, (counter_at [3, 4, 5, 0, 5, 0, 0] 6)\<lparr>m_ltrCount := 1, m_debounce := False\<rparr>) \<and>
   crossedFromRightToLeft cooldown_elapsed cooldown_restart (counter_at [3, 4, 5, 0, 5, 0, 0] 6) =
     (False, counter_at [3, 4, 5, 0, 5, 0, 0] 6)"
proof -
  have d: "cooldown_elapsed (m_debounce (counter_at [3, 4, 5, 0, 5, 0, 0] 6))"
    by (simp add: cooldown_elapsed_def counter_at_def lineAt_def fresh_counter_def
        LineCrossingCounter_def)
  show ?thesis
    using d
      crossing_accepted_iff [where debounced = cooldown_elapsed and touch = cooldown_restart
        and s = "counter_at [3, 4, 5, 0, 5, 0, 0] 6"]
    by (simp add: gt_def cooldown_restart_def counter_at_def lineAt_def fresh_counter_def
        LineCrossingCounter_def)
qed

section \<open>The crossing queries: single bins and sequences\<close>

lemma seven:
  assumes "length (xs :: 'a list) = 7"
  obtains a b c d e f g where "xs = [a, b, c, d, e, f, g]"
  using assms by (auto simp: numeral_eq_Suc length_Suc_conv)

text \<open>
  C9. When at most one of the seven slots holds a stamp, both queries return false
  and leave the whole object, hence both counters, as it was: for every tick, every
  lag and every state and behaviour of the debounce.
\<close>

theorem single_bin_never_crosses:
  assumes "length (m_motion s) = 7" and "stamped_slots (m_motion s) \<le> 1"
  shows "crossedFromLeftToRight debounced touch s = (False, s) \<and>
         crossedFromRightToLeft debounced touch s = (False, s)"
proof -
  from assms(1) obtain a b c d e f g where m: "m_motion s = [a, b, c, d, e, f, g]"
    by (rule seven)
  have z: "(a = 0 \<or> b = 0) \<and> (b = 0 \<or> c = 0) \<and> (c = 0 \<or> e = 0) \<and>
           (e = 0 \<or> f = 0) \<and> (f = 0 \<or> g = 0)"
    using assms(2) by (simp add: m stamped_slots_def split: if_splits)
  have "gt s (- 2) (- 3) = 0" "gt s (- 1) (- 2) = 0" "gt s 1 (- 1) = 0" "gt s 2 1 = 0"
       "gt s (- 2) (- 1) = 0" "gt s (- 1) 1 = 0" "gt s 1 2 = 0" "gt s 2 3 = 0"
    using z by (auto simp: gt_def m)
  then show ?thesis
    by (simp add: crossedFromLeftToRight_def crossedFromRightToLeft_def)
qed

theorem single_bin_never_crosses_witness:
  "length (m_motion (counter_at [0, 0, 7, 0, 0, 0, 0] 9)) = 7 \<and>
   stamped_slots (m_motion (counter_at [0, 0, 7, 0, 0, 0, 0] 9)) \<le> 1 \<and>
   crossedFromLeftToRight cooldown_elapsed cooldown_restart (counter_at [0, 0, 7, 0, 0, 0, 0] 9) =
     (False, counter_at [0, 0, 7, 0, 0, 0, 0] 9) \<and>
   crossedFromRightToLeft cooldown_elapsed cooldown_restart (counter_at [0, 0, 7, 0, 0, 0, 0] 9) =
     (False, counter_at [0, 0, 7, 0, 0, 0, 0] 9)"
proof -
  have l: "length (m_motion (counter_at [0, 0, 7, 0, 0, 0, 0] 9)) = 7"
    by (simp add: counter_at_def)
  have o: "stamped_slots (m_motion (counter_at [0, 0, 7, 0, 0, 0, 0] 9)) \<le> 1"
    by (simp add: counter_at_def stamped_slots_def)
  show ?thesis
    using l o single_bin_never_crosses [OF l o, of cooldown_elapsed cooldown_restart]
    by simp
qed

lemma strict_scores:
  assumes "stamped_left_to_right s"
  shows "gt s (- 2) (- 3) \<in> {0, 10}" "gt s (- 1) (- 2) \<in> {0, 10}"
    "gt s 1 (- 1) \<in> {0, 10}" "gt s 2 1 = 0"
proof -
  from assms have "length (m_motion s) = 7"
    by (simp add: stamped_left_to_right_def Let_def)
  then obtain a b c d e f g where m: "m_motion s = [a, b, c, d, e, f, g]" by (rule seven)
  from assms show "gt s (- 2) (- 3) \<in> {0, 10}" "gt s (- 1) (- 2) \<in> {0, 10}"
    "gt s 1 (- 1) \<in> {0, 10}" "gt s 2 1 = 0"
    by (auto simp: stamped_left_to_right_def gt_def m Let_def)
qed

lemma strict_rejected:
  assumes "stamped_left_to_right s"
  shows "crossedFromLeftToRight debounced touch s = (False, s)"
proof -
  have "\<not> (c > 20 \<and> c mod 10 > 0)"
    if "c = g1 + g2 + g3 + 0" "g1 \<in> {0, 10}" "g2 \<in> {0, 10}" "g3 \<in> {0, 10}"
    for c g1 g2 g3 :: "8 word"
    using that by auto
  from this [OF _ strict_scores(1-3) [OF assms]] strict_scores(4) [OF assms]
  show ?thesis
    by (auto simp add: crossedFromLeftToRight_def Let_def)
qed

lemma tied_scores:
  assumes "stamped_left_to_right_tied s"
  shows "gt s (- 2) (- 3) + gt s (- 1) (- 2) + gt s 1 (- 1) + gt s 2 1 = 21"
proof -
  from assms have "length (m_motion s) = 7"
    by (simp add: stamped_left_to_right_tied_def Let_def)
  then obtain a b c d e f g where m: "m_motion s = [a, b, c, d, e, f, g]" by (rule seven)
  from assms have l: "uint b - uint a \<le> uint (m_lag s)" "uint c - uint b \<le> uint (m_lag s)"
      "uint e - uint c \<le> uint (m_lag s)" and f: "f = 0"
      and a: "a \<noteq> 0" and t: "uint (m_t s) - 2 * uint (m_lag s) \<le> uint b"
      and o: "a = b \<and> b < c \<and> c < e \<or> a < b \<and> b = c \<and> c < e \<or> a < b \<and> b < c \<and> c = e"
    by (simp_all add: stamped_left_to_right_tied_def m Let_def)
  from o have le: "a \<le> b" "b \<le> c" "c \<le> e" by auto
  with a have nz: "b \<noteq> 0" "c \<noteq> 0" "e \<noteq> 0"
    by (auto simp: word_le_def word_less_def uint_0_iff [symmetric] simp del: uint_0_iff)
  from le t have fr: "\<not> uint b < uint (m_t s) - 2 * uint (m_lag s)"
     "\<not> uint c < uint (m_t s) - 2 * uint (m_lag s)"
     "\<not> uint e < uint (m_t s) - 2 * uint (m_lag s)"
    by (auto simp: word_le_def)
  have g4: "gt s 2 1 = 0" by (simp add: gt_def m f)
  have g1: "gt s (- 2) (- 3) = (if a < b then 10 else 1)"
    using a nz fr l le by (auto simp: gt_def m)
  have g2: "gt s (- 1) (- 2) = (if b < c then 10 else 1)"
    using a nz fr l le by (auto simp: gt_def m)
  have g3: "gt s 1 (- 1) = (if c < e then 10 else 1)"
    using a nz fr l le by (auto simp: gt_def m)
  from o show ?thesis
    by (auto simp: g1 g2 g3 g4)
qed

text \<open>
  C1, as the code has it. When bins -3, -2, -1, +1 were stamped at strictly increasing
  ticks, each within lag of the one before, and bins +2 and +3 were not stamped,
  \<^verbatim>\<open>crossedFromLeftToRight()\<close> returns false and changes nothing, whatever the debounce:
  each of the three pairs scores 0 or 10 and the fourth scores 0, so the sum is a
  multiple of 10. It returns true and adds 1 to the left-to-right counter when exactly
  one of the three steps is a tie instead, the stamp of bin -2 is not older than
  \<^verbatim>\<open>_t - 2 * _lag\<close> and the debounce has elapsed (the sum is then 21); the same query
  asked again while the debounce has not elapsed returns false.
\<close>

theorem ltr_sequence_outcome:
  "(stamped_left_to_right s \<longrightarrow> crossedFromLeftToRight debounced touch s = (False, s)) \<and>
   (stamped_left_to_right_tied s \<and> debounced (m_debounce s) \<longrightarrow>
      (let s' = s\<lparr>m_ltrCount := m_ltrCount s + 1, m_debounce := touch (m_debounce s)\<rparr> in
       crossedFromLeftToRight debounced touch s = (True, s') \<and>
       (\<not> debounced (m_debounce s') \<longrightarrow>
          crossedFromLeftToRight debounced touch s' = (False, s'))))"
  by (simp add: strict_rejected) (simp add: crossedFromLeftToRight_def tied_scores Let_def)

theorem ltr_sequence_outcome_witness:
  "stamped_left_to_right (counter_at [5, 6, 8, 0, 9, 0, 0] 10) \<and>
   crossedFromLeftToRight cooldown_elapsed cooldown_restart (counter_at [5, 6, 8, 0, 9, 0, 0] 10) =
     (False, counter_at [5, 6, 8, 0, 9, 0, 0] 10) \<and>
   stamped_left_to_right_tied (counter_at [5, 6, 8, 0, 8, 0, 0] 10) \<and>
   cooldown_elapsed (m_debounce (counter_at [5, 6, 8, 0, 8, 0, 0] 10)) \<and>
   crossedFromLeftToRight cooldown_elapsed cooldown_restart (counter_at [5, 6, 8, 0, 8, 0, 0] 10) =
     (True, (counter_at [5, 6, 8, 0, 8, 0, 0] 10)\<lparr>m_ltrCount := 1, m_debounce := False\<rparr>) \<and>
   \<not> cooldown_elapsed
       (m_debounce ((counter_at [5, 6, 8, 0, 8, 0, 0] 10)\<lparr>m_ltrCount := 1, m_debounce := False\<rparr>)) \<and>
   crossedFromLeftToRight cooldown_elapsed cooldown_restart
       ((counter_at [5, 6, 8, 0, 8, 0, 0] 10)\<lparr>m_ltrCount := 1, m_debounce := False\<rparr>) =
     (False, (counter_at [5, 6, 8, 0, 8, 0, 0] 10)\<lparr>m_ltrCount := 1, m_debounce := False\<rparr>)"
proof -
  have a: "stamped_left_to_right (counter_at [5, 6, 8, 0, 9, 0, 0] 10)"
    by (simp add: stamped_left_to_right_def counter_at_def lineAt_def fresh_counter_def
        LineCrossingCounter_def)
  have b: "stamped_left_to_right_tied (counter_at [5, 6, 8, 0, 8, 0, 0] 10)"
    by (simp add: stamped_left_to_right_tied_def counter_at_def lineAt_def fresh_counter_def
        LineCrossingCounter_def)
  have c: "m_debounce (counter_at [5, 6, 8, 0, 8, 0, 0] 10) = True"
    "m_ltrCount (counter_at [5, 6, 8, 0, 8, 0, 0] 10) = 0"
    by (simp_all add: counter_at_def lineAt_def fresh_counter_def LineCrossingCounter_def)
  show ?thesis
    using a b
      ltr_sequence_outcome [of "counter_at [5, 6, 8, 0, 9, 0, 0] 10"
        cooldown_elapsed cooldown_restart]
      ltr_sequence_outcome [of "counter_at [5, 6, 8, 0, 8, 0, 0] 10"
        cooldown_elapsed cooldown_restart]
    by (simp add: c cooldown_elapsed_def cooldown_restart_def Let_def)
qed

theorem ltr_strict_sequence_counterexample:
  "stamped_left_to_right (counter_at [1, 2, 3, 0, 4, 0, 0] 4) \<and>
   cooldown_elapsed (m_debounce (counter_at [1, 2, 3, 0, 4, 0, 0] 4)) \<and>
   crossedFromLeftToRight cooldown_elapsed cooldown_restart (counter_at [1, 2, 3, 0, 4, 0, 0] 4) =
     (False, counter_at [1, 2, 3, 0, 4, 0, 0] 4)"
  by (simp add: stamped_left_to_right_def crossedFromLeftToRight_def gt_def
      cooldown_elapsed_def counter_at_def lineAt_def fresh_counter_def
      LineCrossingCounter_def)

section \<open>Resolving the configured coordinates\<close>

lemma uint_to_uint16:
  assumes "0 \<le> r" "r < 65536"
  shows "uint (to_uint16 r) = \<lfloor>r\<rfloor>"
proof -
  have "0 \<le> \<lfloor>r\<rfloor>" "\<lfloor>r\<rfloor> < 65536"
    using assms by (simp_all add: floor_less_iff)
  then show ?thesis
    using assms by (simp add: to_uint16_def uint_word_of_int take_bit_int_eq_self)
qed

lemma float32_within:
  assumes "0 \<le> x" "x \<le> real n" "n < 65536"
  shows "0 \<le> float32 x \<and> float32 x \<le> real n \<and> float32 x < 65536"
proof -
  have n: "real n < 65536" using assms(3) by simp
  have "x \<le> real_of_int (int n)" using assms(2) by simp
  moreover have "x < 16777216" using assms(2) n by linarith
  ultimately have "float32 x \<le> real_of_int (int n)" by (rule float32_le_int [OF assms(1)])
  then have "float32 x \<le> real n" by simp
  with float32_nonneg [OF assms(1)] n show ?thesis by linarith
qed

lemma column_resolved:
  assumes "n < 65536"
  shows "is_float32 v \<and> 1 \<le> v \<and> v < 524288 \<longrightarrow>
           uint (to_uint16 (if 1 \<le> v then float32 (v / 8) else float32 (v * real n))) = \<lfloor>v / 8\<rfloor>"
    and "0 \<le> v \<and> v < 1 \<longrightarrow>
           uint (to_uint16 (if 1 \<le> v then float32 (v / 8) else float32 (v * real n)))
             = \<lfloor>float32 (v * real n)\<rfloor>"
proof -
  show "is_float32 v \<and> 1 \<le> v \<and> v < 524288 \<longrightarrow>
           uint (to_uint16 (if 1 \<le> v then float32 (v / 8) else float32 (v * real n))) = \<lfloor>v / 8\<rfloor>"
  proof
    assume a: "is_float32 v \<and> 1 \<le> v \<and> v < 524288"
    then have e: "float32 (v / 8) = v / 8" by (simp add: is_float32_def float32_div8)
    have "0 \<le> v / 8" "v / 8 < 65536" using a by simp_all
    from uint_to_uint16 [OF this] a show
      "uint (to_uint16 (if 1 \<le> v then float32 (v / 8) else float32 (v * real n))) = \<lfloor>v / 8\<rfloor>"
      by (simp add: e)
  qed
  show "0 \<le> v \<and> v < 1 \<longrightarrow>
           uint (to_uint16 (if 1 \<le> v then float32 (v / 8) else float32 (v * real n)))
             = \<lfloor>float32 (v * real n)\<rfloor>"
  proof
    assume a: "0 \<le> v \<and> v < 1"
    have k: "0 \<le> real n" by simp
    from a have p: "0 \<le> v * real n" by simp
    from a have "v \<le> 1" by simp
    from mult_left_le_one_le [OF k _ this] a have "v * real n \<le> real n" by simp
    from float32_within [OF p this assms]
    have "0 \<le> float32 (v * real n)" "float32 (v * real n) < 65536" by simp_all
    from uint_to_uint16 [OF this] a show
      "uint (to_uint16 (if 1 \<le> v then float32 (v / 8) else float32 (v * real n)))
             = \<lfloor>float32 (v * real n)\<rfloor>"
      by simp
  qed
qed

lemma row_resolved:
  assumes "n < 65536"
  shows "is_float32 v \<and> 1 \<le> v \<and> v \<le> 8 * real n \<longrightarrow>
           uint (to_uint16 (float32 (real n -
              (if 1 \<le> v then float32 (v / 8) else float32 (v * real n)))))
             = \<lfloor>float32 (real n - v / 8)\<rfloor>"
    and "0 \<le> v \<and> v < 1 \<longrightarrow>
           uint (to_uint16 (float32 (real n -
              (if 1 \<le> v then float32 (v / 8) else float32 (v * real n)))))
             = \<lfloor>float32 (real n - float32 (v * real n))\<rfloor>"
proof -
  show "is_float32 v \<and> 1 \<le> v \<and> v \<le> 8 * real n \<longrightarrow>
           uint (to_uint16 (float32 (real n -
              (if 1 \<le> v then float32 (v / 8) else float32 (v * real n)))))
             = \<lfloor>float32 (real n - v / 8)\<rfloor>"
  proof
    assume a: "is_float32 v \<and> 1 \<le> v \<and> v \<le> 8 * real n"
    then have e: "float32 (v / 8) = v / 8" by (simp add: is_float32_def float32_div8)
    have "0 \<le> real n - v / 8" "real n - v / 8 \<le> real n" using a by simp_all
    from float32_within [OF this assms]
    have "0 \<le> float32 (real n - v / 8)" "float32 (real n - v / 8) < 65536" by simp_all
    from uint_to_uint16 [OF this] a show
      "uint (to_uint16 (float32 (real n -
              (if 1 \<le> v then float32 (v / 8) else float32 (v * real n)))))
             = \<lfloor>float32 (real n - v / 8)\<rfloor>"
      by (simp add: e)
  qed
  show "0 \<le> v \<and> v < 1 \<longrightarrow>
           uint (to_uint16 (float32 (real n -
              (if 1 \<le> v then float32 (v / 8) else float32 (v * real n)))))
             = \<lfloor>float32 (real n - float32 (v * real n))\<rfloor>"
  proof
    assume a: "0 \<le> v \<and> v < 1"
    have k: "0 \<le> real n" by simp
    from a have p: "0 \<le> v * real n" by simp
    from a have "v \<le> 1" by simp
    from mult_left_le_one_le [OF k _ this] a have "v * real n \<le> real n" by simp
    from float32_within [OF p this assms]
    have r: "0 \<le> float32 (v * real n)" "float32 (v * real n) \<le> real n" by simp_all
    then have "0 \<le> real n - float32 (v * real n)" "real n - float32 (v * real n) \<le> real n"
      by simp_all
    from float32_within [OF this assms]
    have "0 \<le> float32 (real n - float32 (v * real n))"
      "float32 (real n - float32 (v * real n)) < 65536" by simp_all
    from uint_to_uint16 [OF this] a show
      "uint (to_uint16 (float32 (real n -
              (if 1 \<le> v then float32 (v / 8) else float32 (v * real n)))))
             = \<lfloor>float32 (real n - float32 (v * real n))\<rfloor>"
      by simp
  qed
qed

text \<open>
  C3, as the code has it. A configured value of at least 1 is a pixel coordinate:
  \<^verbatim>\<open>update()\<close> divides it by 8, the side of a grid cell in pixels, which is exact in
  binary32. For a line position from 1 up to, not including, 524288 the column is the
  integer part of \<^verbatim>\<open>_x / 8\<close>; for a region bound from 1 to 8 times the height the row
  is the integer part of the binary32 difference of the height and the bound over 8.
  A value in [0,1) is multiplied by the width of the grid for the line and by its
  height for a row, in binary32: the column is the integer part of the rounded product
  and the row the integer part of the rounded difference of the height and the rounded
  product. Within these bounds the number converted to \<^verbatim>\<open>uint16_t\<close> fits.
\<close>

theorem resolved_cells:
  "(is_float32 (m_x s) \<and> 1 \<le> m_x s \<and> m_x s < 524288 \<longrightarrow>
      uint (local_x det s) = \<lfloor>m_x s / 8\<rfloor>) \<and>
   (0 \<le> m_x s \<and> m_x s < 1 \<longrightarrow>
      uint (local_x det s) = \<lfloor>float32 (m_x s * real (unat (getWidth det)))\<rfloor>) \<and>
   (is_float32 (m_miny s) \<and> 1 \<le> m_miny s \<and> m_miny s \<le> 8 * real (unat (getHeight det)) \<longrightarrow>
      uint (local_above det s) = \<lfloor>float32 (real (unat (getHeight det)) - m_miny s / 8)\<rfloor>) \<and>
   (0 \<le> m_miny s \<and> m_miny s < 1 \<longrightarrow>
      uint (local_above det s) =
        \<lfloor>float32 (real (unat (getHeight det))
           - float32 (m_miny s * real (unat (getHeight det))))\<rfloor>) \<and>
   (is_float32 (m_maxy s) \<and> 1 \<le> m_maxy s \<and> m_maxy s \<le> 8 * real (unat (getHeight det)) \<longrightarrow>
      uint (local_below det s) = \<lfloor>float32 (real (unat (getHeight det)) - m_maxy s / 8)\<rfloor>) \<and>
   (0 \<le> m_maxy s \<and> m_maxy s < 1 \<longrightarrow>
      uint (local_below det s) =
        \<lfloor>float32 (real (unat (getHeight det))
           - float32 (m_maxy s * real (unat (getHeight det))))\<rfloor>)"
proof -
  have w: "unat (w :: 16 word) < 65536" for w
    using unsigned_less [of w, where 'a = nat] by simp
  show ?thesis
    unfolding local_x_def local_above_def local_below_def resolve_def
    using column_resolved [OF w] row_resolved [OF w] by blast
qed

theorem resolved_cells_witness:
  "is_float32 (m_x (below 8 (above 4 (lineAt 40 fresh_counter)))) \<and>
   1 \<le> m_x (below 8 (above 4 (lineAt 40 fresh_counter))) \<and>
   m_x (below 8 (above 4 (lineAt 40 fresh_counter))) < 524288 \<and>
   uint (local_x frame_full (below 8 (above 4 (lineAt 40 fresh_counter)))) = 5 \<and>
   is_float32 (m_miny (below 8 (above 4 (lineAt 40 fresh_counter)))) \<and>
   1 \<le> m_miny (below 8 (above 4 (lineAt 40 fresh_counter))) \<and>
   m_miny (below 8 (above 4 (lineAt 40 fresh_counter))) \<le> 8 * real (unat (getHeight frame_full)) \<and>
   uint (local_above frame_full (below 8 (above 4 (lineAt 40 fresh_counter)))) = 1 \<and>
   is_float32 (m_maxy (below 8 (above 4 (lineAt 40 fresh_counter)))) \<and>
   1 \<le> m_maxy (below 8 (above 4 (lineAt 40 fresh_counter))) \<and>
   m_maxy (below 8 (above 4 (lineAt 40 fresh_counter))) \<le> 8 * real (unat (getHeight frame_full)) \<and>
   uint (local_below frame_full (below 8 (above 4 (lineAt 40 fresh_counter)))) = 1 \<and>
   0 \<le> m_x (lineAt (float32 (7 / 10)) fresh_counter) \<and>
   m_x (lineAt (float32 (7 / 10)) fresh_counter) < 1 \<and>
   uint (local_x frame_full (lineAt (float32 (7 / 10)) fresh_counter)) = 14 \<and>
   0 \<le> m_miny (lineAt (float32 (7 / 10)) fresh_counter) \<and>
   m_miny (lineAt (float32 (7 / 10)) fresh_counter) < 1 \<and>
   uint (local_above frame_full (lineAt (float32 (7 / 10)) fresh_counter)) = 2 \<and>
   0 \<le> m_maxy (lineAt (float32 (7 / 10)) fresh_counter) \<and>
   m_maxy (lineAt (float32 (7 / 10)) fresh_counter) < 1 \<and>
   uint (local_below frame_full (lineAt (float32 (7 / 10)) fresh_counter)) = 0"
  using resolved_cells [of "below 8 (above 4 (lineAt 40 fresh_counter))" frame_full]
    resolved_cells [of "lineAt (float32 (7 / 10)) fresh_counter" frame_full]
  by (simp add: below_def above_def lineAt_def fresh_counter_def LineCrossingCounter_def
      frame_full_def is_float32_def float32_def bexp_def round_even_def compute_bitlen)

theorem absolute_value_counterexample:
  "1 \<le> m_x (lineAt 16 fresh_counter) \<and>
   m_x (lineAt 16 fresh_counter) = 16 \<and>
   resolve (m_x (lineAt 16 fresh_counter)) (getWidth frame_full) = 2 \<and>
   local_x frame_full (lineAt 16 fresh_counter) = 2"
  by (simp add: local_x_def resolve_def to_uint16_def binary32_values lineAt_def
      fresh_counter_def LineCrossingCounter_def frame_full_def)

section \<open>Where update() departs from its description\<close>

text \<open>
  C4. A counter constructed in zeroed memory, the line set at pixel 40, sees a frame
  in which every cell is foreground. Its first \<^verbatim>\<open>update()\<close> succeeds, with tick 1
  and lag 3, asks the detector about no cell and leaves all seven slots 0: the slots
  that were never stamped are skipped, because 0 >= 1 - 3 in \<^verbatim>\<open>int\<close>. At the
  wrap from 65000 to 1 the comparison is the same: every slot, stamped or not, is
  skipped.
\<close>

theorem unstamped_slots_skipped_at_first_tick:
  "m_motion (lineAt 40 fresh_counter) = [0, 0, 0, 0, 0, 0, 0] \<and>
   isForeground frame_full 1 0 \<and>
   fst (update frame_full (lineAt 40 fresh_counter)) \<and>
   m_t (fst (snd (update frame_full (lineAt 40 fresh_counter)))) = 1 \<and>
   snd (snd (update frame_full (lineAt 40 fresh_counter))) = [] \<and>
   m_motion (fst (snd (update frame_full (lineAt 40 fresh_counter)))) = [0, 0, 0, 0, 0, 0, 0] \<and>
   m_t (fst (snd (update frame_full (counter_at [0, 0, 64999, 0, 0, 0, 0] 65000)))) = 1 \<and>
   snd (snd (update frame_full (counter_at [0, 0, 64999, 0, 0, 0, 0] 65000))) = []"
  by (simp add: update_def local_x_def local_above_def local_below_def resolve_def
      to_uint16_def binary32_values float32_0 frame_full_def counter_at_def
      fresh_counter_def LineCrossingCounter_def lineAt_def setErrorMessage_def advance_def
      scan_bins.simps)

text \<open>
  C5. After three updates on a still frame of width 20, with the line at column 5
  and sparsity 4, the fourth update scans bin +3, whose band is columns 17 to 20. It
  asks the detector about column 20, which is the width of the grid and not one of
  its columns 0 to 19: the test of line 120 is \<^verbatim>\<open>dx + x > width\<close>.
\<close>

theorem column_at_width_is_queried:
  "getWidth frame_still = 20 \<and>
   run cooldown_elapsed cooldown_restart
     [LineAt 40, Update frame_still, Update frame_still, Update frame_still] fresh_counter
     = counter_at [0, 0, 0, 0, 0, 0, 0] 3 \<and>
   fst (update frame_still (counter_at [0, 0, 0, 0, 0, 0, 0] 3)) \<and>
   (20, 0) \<in> set (snd (snd (update frame_still (counter_at [0, 0, 0, 0, 0, 0, 0] 3))))"
  by (simp add: update_def local_x_def local_above_def local_below_def resolve_def
      to_uint16_def binary32_values float32_0 frame_still_def counter_at_def
      fresh_counter_def LineCrossingCounter_def lineAt_def setErrorMessage_def advance_def
      scan_bins.simps scan_cols.simps scan_rows.simps)

text \<open>
  C6. Bin -1, columns 1 to 4, is stamped at tick 4 by motion in column 1. At tick 8
  the stamp is older than lag and the bin is scanned on a frame with motion in column
  2 only. Column 1 is asked and shows nothing; line 130 then finds the old stamp in the
  slot and leaves the loop. Column 2 is never asked, no foreground cell was found and
  the slot still holds 4, not 8.
\<close>

theorem stale_stamp_ends_scan_after_one_column:
  "run cooldown_elapsed cooldown_restart
      [LineAt 40, Update frame_still, Update frame_still, Update frame_still,
       Update (frame_column 1), Update frame_still, Update frame_still, Update frame_still]
      fresh_counter = counter_at [0, 0, 4, 0, 0, 0, 0] 7 \<and>
   isForeground (frame_column 2) 2 0 \<and>
   (1, 0) \<in> set (snd (snd (update (frame_column 2) (counter_at [0, 0, 4, 0, 0, 0, 0] 7)))) \<and>
   (2, 0) \<notin> set (snd (snd (update (frame_column 2) (counter_at [0, 0, 4, 0, 0, 0, 0] 7)))) \<and>
   m_t (fst (snd (update (frame_column 2) (counter_at [0, 0, 4, 0, 0, 0, 0] 7)))) = 8 \<and>
   m_motion (fst (snd (update (frame_column 2) (counter_at [0, 0, 4, 0, 0, 0, 0] 7))))
     = [0, 0, 4, 0, 0, 0, 0]"
  by (simp add: update_def local_x_def local_above_def local_below_def resolve_def
      to_uint16_def binary32_values float32_0 frame_still_def frame_column_def
      counter_at_def fresh_counter_def LineCrossingCounter_def lineAt_def
      setErrorMessage_def advance_def scan_bins.simps scan_cols.simps scan_rows.simps)

end
